theory Spec2Isabelle
  imports Complex_Main "HOL-Library.Multiset"
begin

section \<open>Conventions of the embedding\<close>

text \<open>
  The three scripts \<^verbatim>\<open>generate_yolo_dataset.py\<close> (polygon pipeline),
  \<^verbatim>\<open>generate_dataset.py\<close> (ring pipeline) and \<^verbatim>\<open>split_dataset.py\<close>
  (partitioner) are embedded function by function.

  \<^item> Python \<^verbatim>\<open>int\<close> is \<^typ>\<open>int\<close>.
  \<^item> Python \<^verbatim>\<open>float\<close> is \<^typ>\<open>real\<close>: every float operation is taken exact, so
    \<^verbatim>\<open>0.07\<close> is \<open>7/100\<close>. IEEE rounding is not part of the model.
  \<^item> A raised exception is the \<open>Inl\<close> branch of a sum.
  \<^item> The process-wide random generator, the file system and the image library are
    not code of the repository: their operations are parameters of the functions that
    call them, and the generator and file-system states are passed explicitly.
\<close>

datatype py_error = ZeroDivisionError | ValueError

type_synonym bbox = "int \<times> int \<times> int \<times> int"
type_synonym fbox = "real \<times> real \<times> real \<times> real"
type_synonym point = "int \<times> int"

text \<open>\<^verbatim>\<open>int(x)\<close> on a float truncates towards zero.\<close>

definition py_int :: "real \<Rightarrow> int" where
  "py_int x = (if 0 \<le> x then \<lfloor>x\<rfloor> else \<lceil>x\<rceil>)"

section \<open>Text formatting\<close>

text \<open>
  \<^verbatim>\<open>str\<close> of an integer and the format specifier \<^verbatim>\<open>:.6f\<close>, as the two
  f-strings that build a label line use them. The fixed-point format rounds the exact
  value to six decimals, ties to even, and always prints six fractional digits.
\<close>

definition digit_char :: "nat \<Rightarrow> char" where
  "digit_char d = ''0123456789'' ! d"

fun str_nat :: "nat \<Rightarrow> string" where
  "str_nat n = (if n < 10 then [digit_char n] else str_nat (n div 10) @ [digit_char (n mod 10)])"

declare str_nat.simps [simp del]

definition str_int :: "int \<Rightarrow> string" where
  "str_int i = (if i < 0 then ''-'' else []) @ str_nat (nat \<bar>i\<bar>)"

definition round_half_even :: "real \<Rightarrow> int" where
  "round_half_even x =
     (let f = \<lfloor>x\<rfloor>; d = x - of_int f
      in if d < 1/2 then f else if 1/2 < d then f + 1 else if even f then f else f + 1)"

definition zero_pad :: "nat \<Rightarrow> string \<Rightarrow> string" where
  "zero_pad w s = replicate (w - length s) (CHR ''0'') @ s"

text \<open>The digits of \<open>n\<close> millionths, with the sign in front when \<open>neg\<close> holds.\<close>

definition fixed_6 :: "bool \<Rightarrow> nat \<Rightarrow> string" where
  "fixed_6 neg n =
     (if neg then ''-'' else []) @ str_nat (n div 1000000) @ ''.''
     @ zero_pad 6 (str_nat (n mod 1000000))"

definition format_6f :: "real \<Rightarrow> string" where
  "format_6f x = fixed_6 (x < 0) (nat (round_half_even (\<bar>x\<bar> * 1000000)))"

section \<open>Polygon pipeline: \<^verbatim>\<open>generate_yolo_dataset.py\<close>\<close>

definition IMAGE_WIDTH :: int where "IMAGE_WIDTH = 640"
definition IMAGE_HEIGHT :: int where "IMAGE_HEIGHT = 640"
definition NUM_IMAGES_PER_SHAPE :: nat where "NUM_IMAGES_PER_SHAPE = 5000"
definition MIN_SHAPE_SIZE :: int where "MIN_SHAPE_SIZE = 50"
definition MAX_SHAPE_SIZE :: int where "MAX_SHAPE_SIZE = 250"
definition BBOX_PADDING_PERCENTAGE :: real where "BBOX_PADDING_PERCENTAGE = 7 / 100"

subsection \<open>\<^verbatim>\<open>get_triangle_area\<close>\<close>

definition get_triangle_area :: "point \<Rightarrow> point \<Rightarrow> point \<Rightarrow> real" where
  "get_triangle_area p1 p2 p3 =
     0.5 * \<bar>of_int (fst p1 * (snd p2 - snd p3) + fst p2 * (snd p3 - snd p1)
                     + fst p3 * (snd p1 - snd p2))\<bar>"

subsection \<open>\<^verbatim>\<open>calculate_yolo_annotation\<close>, stage by stage\<close>

text \<open>Lines 115 to 126: the tight box enlarged by the padding on each side.\<close>

definition enlarged_bbox :: "bbox \<Rightarrow> real \<Rightarrow> fbox" where
  "enlarged_bbox tight_bbox padding_percentage =
     (case tight_bbox of (tight_x_min, tight_y_min, tight_x_max, tight_y_max) \<Rightarrow>
        let tight_w = tight_x_max - tight_x_min;
            tight_h = tight_y_max - tight_y_min;
            pad_w = of_int tight_w * padding_percentage;
            pad_h = of_int tight_h * padding_percentage
        in (of_int tight_x_min - pad_w, of_int tight_y_min - pad_h,
            of_int tight_x_max + pad_w, of_int tight_y_max + pad_h))"

text \<open>Lines 128 to 131: the lower edges clamped at 0, the upper edges at the canvas size.\<close>

definition clamped_bbox :: "fbox \<Rightarrow> int \<Rightarrow> int \<Rightarrow> fbox" where
  "clamped_bbox enlarged img_w img_h =
     (case enlarged of (enlarged_x_min, enlarged_y_min, enlarged_x_max, enlarged_y_max) \<Rightarrow>
        (max 0 enlarged_x_min, max 0 enlarged_y_min,
         min (of_int img_w) enlarged_x_max, min (of_int img_h) enlarged_y_max))"

text \<open>
  Lines 133 to 136 for the x axis and lines 138 to 141 for the y axis: the same three
  statements on \<open>(final_min, final_max)\<close> against the canvas size \<open>img\<close> of that axis.
\<close>

definition repair_span :: "real \<Rightarrow> real \<Rightarrow> int \<Rightarrow> real \<times> real" where
  "repair_span final_min final_max img =
     (if final_max \<le> final_min then
        let final_max1 = (if final_min < of_int img then final_min + 1 else of_int img);
            final_max2 = (if of_int img < final_max1 then of_int img else final_max1);
            final_min2 = (if final_max2 \<le> final_min
                          then (if 0 < final_max2 then final_max2 - 1 else 0)
                          else final_min)
        in (final_min2, final_max2)
      else (final_min, final_max))"

text \<open>Lines 115 to 141: the box that is normalised.\<close>

definition final_bbox :: "bbox \<Rightarrow> int \<Rightarrow> int \<Rightarrow> real \<Rightarrow> fbox" where
  "final_bbox tight_bbox img_w img_h padding_percentage =
     (case clamped_bbox (enlarged_bbox tight_bbox padding_percentage) img_w img_h of
        (x_min, y_min, x_max, y_max) \<Rightarrow>
          (case repair_span x_min x_max img_w of (final_x_min, final_x_max) \<Rightarrow>
           case repair_span y_min y_max img_h of (final_y_min, final_y_max) \<Rightarrow>
             (final_x_min, final_y_min, final_x_max, final_y_max)))"

text \<open>
  Lines 143 to 151: centre and size, divided by the canvas size. The division raises
  on a canvas dimension of 0.
\<close>

definition normalize_bbox :: "fbox \<Rightarrow> int \<Rightarrow> int \<Rightarrow> py_error + (real \<times> real \<times> real \<times> real)" where
  "normalize_bbox final img_w img_h =
     (case final of (final_x_min, final_y_min, final_x_max, final_y_max) \<Rightarrow>
        let bbox_abs_center_x = (final_x_min + final_x_max) / 2;
            bbox_abs_center_y = (final_y_min + final_y_max) / 2;
            bbox_abs_width = final_x_max - final_x_min;
            bbox_abs_height = final_y_max - final_y_min
        in if img_w = 0 \<or> img_h = 0 then Inl ZeroDivisionError
           else Inr (bbox_abs_center_x / of_int img_w, bbox_abs_center_y / of_int img_h,
                     bbox_abs_width / of_int img_w, bbox_abs_height / of_int img_h))"

text \<open>The numeric fields of the annotation: lines 115 to 151.\<close>

definition yolo_fields :: "bbox \<Rightarrow> int \<Rightarrow> int \<Rightarrow> real \<Rightarrow> py_error + (real \<times> real \<times> real \<times> real)" where
  "yolo_fields tight_bbox img_w img_h padding_percentage =
     normalize_bbox (final_bbox tight_bbox img_w img_h padding_percentage) img_w img_h"

text \<open>Line 153: the returned string. It has no line terminator.\<close>

definition format_annotation :: "int \<Rightarrow> real \<times> real \<times> real \<times> real \<Rightarrow> string" where
  "format_annotation class_id fields =
     (case fields of (x_center_norm, y_center_norm, width_norm, height_norm) \<Rightarrow>
        str_int class_id @ '' '' @ format_6f x_center_norm @ '' '' @ format_6f y_center_norm
        @ '' '' @ format_6f width_norm @ '' '' @ format_6f height_norm)"

definition calculate_yolo_annotation :: "bbox \<Rightarrow> int \<Rightarrow> int \<Rightarrow> int \<Rightarrow> real \<Rightarrow> py_error + string" where
  "calculate_yolo_annotation tight_bbox class_id img_w img_h padding_percentage =
     (case yolo_fields tight_bbox img_w img_h padding_percentage of
        Inl e \<Rightarrow> Inl e
      | Inr fields \<Rightarrow> Inr (format_annotation class_id fields))"

text \<open>
  Lines 306 to 319 of the main block: the text written to the label file of one sample
  is the annotation string, as returned.
\<close>

definition polygon_label_file :: "bbox \<Rightarrow> int \<Rightarrow> py_error + string" where
  "polygon_label_file tight_bbox class_id =
     calculate_yolo_annotation tight_bbox class_id IMAGE_WIDTH IMAGE_HEIGHT BBOX_PADDING_PERCENTAGE"

subsection \<open>The random source\<close>

text \<open>
  \<^verbatim>\<open>random.randint(a, b)\<close> draws from the process-wide generator. Its raw draw
  is the parameter \<open>randint\<close>, a function of the generator state; the wrapper adds what
  the library does on an empty range, which is to raise \<^verbatim>\<open>ValueError\<close>.
  \<open>randint_in_range\<close> is the library's contract: a draw lies in the range asked for.
\<close>

definition py_randint :: "('g \<Rightarrow> int \<Rightarrow> int \<Rightarrow> int \<times> 'g) \<Rightarrow> 'g \<Rightarrow> int \<Rightarrow> int \<Rightarrow> py_error + (int \<times> 'g)" where
  "py_randint randint g a b = (if b < a then Inl ValueError else Inr (randint g a b))"

definition randint_in_range :: "('g \<Rightarrow> int \<Rightarrow> int \<Rightarrow> int \<times> 'g) \<Rightarrow> bool" where
  "randint_in_range randint =
     (\<forall>g a b. a \<le> b \<longrightarrow> a \<le> fst (randint g a b) \<and> fst (randint g a b) \<le> b)"

subsection \<open>\<^verbatim>\<open>generate_triangle\<close>\<close>

text \<open>Line 239.\<close>

definition min_area :: real where
  "min_area = of_int (MIN_SHAPE_SIZE * MIN_SHAPE_SIZE) / 10"

text \<open>Lines 252 to 254: one vertex inside the window.\<close>

definition sample_point ::
  "('g \<Rightarrow> int \<Rightarrow> int \<Rightarrow> int \<times> 'g) \<Rightarrow> int \<Rightarrow> int \<Rightarrow> int \<Rightarrow> int \<Rightarrow> 'g \<Rightarrow> py_error + (point \<times> 'g)" where
  "sample_point randint tri_origin_x tri_origin_y tri_bbox_w tri_bbox_h g =
     (case py_randint randint g tri_origin_x (tri_origin_x + tri_bbox_w) of
        Inl e \<Rightarrow> Inl e
      | Inr (pt_x, g1) \<Rightarrow>
          (case py_randint randint g1 tri_origin_y (tri_origin_y + tri_bbox_h) of
             Inl e \<Rightarrow> Inl e
           | Inr (pt_y, g2) \<Rightarrow> Inr ((pt_x, pt_y), g2)))"

text \<open>Lines 244 to 248: the size and the origin of the window.\<close>

definition sample_window ::
  "('g \<Rightarrow> int \<Rightarrow> int \<Rightarrow> int \<times> 'g) \<Rightarrow> 'g \<Rightarrow> py_error + ((int \<times> int \<times> int \<times> int) \<times> 'g)" where
  "sample_window randint g =
     (case py_randint randint g MIN_SHAPE_SIZE MAX_SHAPE_SIZE of
        Inl e \<Rightarrow> Inl e
      | Inr (w, g1) \<Rightarrow>
     (case py_randint randint g1 MIN_SHAPE_SIZE MAX_SHAPE_SIZE of
        Inl e \<Rightarrow> Inl e
      | Inr (h, g2) \<Rightarrow>
     (case py_randint randint g2 0 (IMAGE_WIDTH - w) of
        Inl e \<Rightarrow> Inl e
      | Inr (origin_x, g3) \<Rightarrow>
     (case py_randint randint g3 0 (IMAGE_HEIGHT - h) of
        Inl e \<Rightarrow> Inl e
      | Inr (origin_y, g4) \<Rightarrow> Inr ((w, h, origin_x, origin_y), g4)))))"

text \<open>Lines 244 to 254: the window, then the three vertices of \<^verbatim>\<open>temp_points\<close>.\<close>

definition sample_temp_points ::
  "('g \<Rightarrow> int \<Rightarrow> int \<Rightarrow> int \<times> 'g) \<Rightarrow> 'g \<Rightarrow> py_error + (point list \<times> 'g)" where
  "sample_temp_points randint g =
     (case sample_window randint g of
        Inl e \<Rightarrow> Inl e
      | Inr ((tri_bbox_w, tri_bbox_h, tri_origin_x, tri_origin_y), g4) \<Rightarrow>
     (case sample_point randint tri_origin_x tri_origin_y tri_bbox_w tri_bbox_h g4 of
        Inl e \<Rightarrow> Inl e
      | Inr (p1, g6) \<Rightarrow>
     (case sample_point randint tri_origin_x tri_origin_y tri_bbox_w tri_bbox_h g6 of
        Inl e \<Rightarrow> Inl e
      | Inr (p2, g8) \<Rightarrow>
     (case sample_point randint tri_origin_x tri_origin_y tri_bbox_w tri_bbox_h g8 of
        Inl e \<Rightarrow> Inl e
      | Inr (p3, g10) \<Rightarrow> Inr ([p1, p2, p3], g10)))))"

text \<open>
  Lines 240 to 261: the rejection loop, entered with the current value of
  \<^verbatim>\<open>attempts\<close>. It returns \<^verbatim>\<open>points\<close> (empty when no sample was accepted),
  the final value of \<^verbatim>\<open>attempts\<close> and the generator state.
\<close>

function triangle_attempts ::
  "('g \<Rightarrow> int \<Rightarrow> int \<Rightarrow> int \<times> 'g) \<Rightarrow> nat \<Rightarrow> 'g \<Rightarrow> py_error + (point list \<times> nat \<times> 'g)" where
  "triangle_attempts randint attempts g =
     (if attempts < 50 then
        (case sample_temp_points randint g of
           Inl e \<Rightarrow> Inl e
         | Inr (temp_points, g') \<Rightarrow>
             if min_area < get_triangle_area (temp_points ! 0) (temp_points ! 1) (temp_points ! 2)
             then Inr (temp_points, attempts, g')
             else triangle_attempts randint (attempts + 1) g')
      else Inr ([], attempts, g))"
  by pat_completeness auto
termination
  by (relation "measure (\<lambda>(randint, attempts, g). 50 - attempts)") auto

declare triangle_attempts.simps [simp del]

text \<open>Lines 264 to 274: the isosceles triangle in a fresh window.\<close>

definition isosceles :: "int \<Rightarrow> int \<Rightarrow> int \<Rightarrow> int \<Rightarrow> point list" where
  "isosceles base height tl_x tl_y =
     [(tl_x + base div 2, tl_y), (tl_x, tl_y + height), (tl_x + base, tl_y + height)]"

definition fallback_triangle ::
  "('g \<Rightarrow> int \<Rightarrow> int \<Rightarrow> int \<times> 'g) \<Rightarrow> 'g \<Rightarrow> py_error + (point list \<times> 'g)" where
  "fallback_triangle randint g =
     (case sample_window randint g of
        Inl e \<Rightarrow> Inl e
      | Inr ((base, height, tl_x, tl_y), g4) \<Rightarrow> Inr (isosceles base height tl_x tl_y, g4))"

text \<open>Lines 278 to 281: \<^verbatim>\<open>min\<close> and \<^verbatim>\<open>max\<close> of a list raise on the empty list.\<close>

fun envelope :: "point list \<Rightarrow> py_error + bbox" where
  "envelope [] = Inl ValueError"
| "envelope (p # ps) =
     Inr (fold min (map fst ps) (fst p), fold min (map snd ps) (snd p),
          fold max (map fst ps) (fst p), fold max (map snd ps) (snd p))"

text \<open>
  The whole function. Besides the tight box that the source returns, the result holds
  the vertex list handed to \<^verbatim>\<open>draw.polygon\<close> and the generator state.
\<close>

definition generate_triangle ::
  "('g \<Rightarrow> int \<Rightarrow> int \<Rightarrow> int \<times> 'g) \<Rightarrow> 'g \<Rightarrow> py_error + (bbox \<times> point list \<times> 'g)" where
  "generate_triangle randint g =
     (case triangle_attempts randint 0 g of
        Inl e \<Rightarrow> Inl e
      | Inr (points0, attempts, g1) \<Rightarrow>
     (case (if points0 = [] then fallback_triangle randint g1 else Inr (points0, g1)) of
        Inl e \<Rightarrow> Inl e
      | Inr (points, g2) \<Rightarrow>
     (case envelope points of
        Inl e \<Rightarrow> Inl e
      | Inr tight \<Rightarrow> Inr (tight, points, g2))))"

section \<open>Ring pipeline: \<^verbatim>\<open>generate_dataset.py\<close>\<close>

definition IMG_WIDTH :: int where "IMG_WIDTH = 640"
definition IMG_HEIGHT :: int where "IMG_HEIGHT = 640"
definition NUM_IMAGES :: nat where "NUM_IMAGES = 5000"
definition NUM_CIRCLES :: nat where "NUM_CIRCLES = 5"
definition CLASS_ID :: int where "CLASS_ID = 0"
definition RADII_FACTORS :: "real list" where "RADII_FACTORS = [1, 8/10, 6/10, 4/10, 2/10]"

type_synonym yolo_data = "int \<times> real \<times> real \<times> real \<times> real"

subsection \<open>\<^verbatim>\<open>calculate_visible_bbox\<close>\<close>

definition calculate_visible_bbox :: "int \<Rightarrow> int \<Rightarrow> int \<Rightarrow> int \<Rightarrow> int \<Rightarrow> bbox" where
  "calculate_visible_bbox cx cy r_outer img_w img_h =
     (let x_min = cx - r_outer;
          y_min = cy - r_outer;
          x_max = cx + r_outer;
          y_max = cy + r_outer
      in (max 0 x_min, max 0 y_min, min img_w x_max, min img_h y_max))"

subsection \<open>\<^verbatim>\<open>to_yolo_format\<close>\<close>

definition to_yolo_format :: "bbox \<Rightarrow> int \<Rightarrow> int \<Rightarrow> py_error + yolo_data" where
  "to_yolo_format bbox img_w img_h =
     (case bbox of (vis_x_min, vis_y_min, vis_x_max, vis_y_max) \<Rightarrow>
        if img_w = 0 \<or> img_h = 0 then Inl ZeroDivisionError
        else
          let dw = 1 / of_int img_w;
              dh = 1 / of_int img_h;
              x_center = of_int (vis_x_min + vis_x_max) / 2;
              y_center = of_int (vis_y_min + vis_y_max) / 2;
              width = of_int (vis_x_max - vis_x_min);
              height = of_int (vis_y_max - vis_y_min)
          in Inr (CLASS_ID, x_center * dw, y_center * dh, width * dw, height * dh))"

subsection \<open>\<^verbatim>\<open>apply_blur\<close>\<close>

text \<open>
  \<^verbatim>\<open>random.randrange(start, stop, step)\<close> with a positive step raises on an
  empty range; \<^verbatim>\<open>cv2.GaussianBlur\<close> with a square kernel of side \<open>k\<close> and sigma 0
  is the parameter \<open>gaussian_blur\<close>.
\<close>

definition py_randrange ::
  "('g \<Rightarrow> int \<Rightarrow> int \<Rightarrow> int \<Rightarrow> int \<times> 'g) \<Rightarrow> 'g \<Rightarrow> int \<Rightarrow> int \<Rightarrow> int \<Rightarrow> py_error + (int \<times> 'g)" where
  "py_randrange randrange g start stop step =
     (if stop \<le> start then Inl ValueError else Inr (randrange g start stop step))"

definition apply_blur ::
  "('g \<Rightarrow> int \<Rightarrow> int \<Rightarrow> int \<Rightarrow> int \<times> 'g) \<Rightarrow> ('img \<Rightarrow> int \<Rightarrow> 'img) \<Rightarrow> 'img \<Rightarrow> int \<Rightarrow> 'g
     \<Rightarrow> py_error + ('img \<times> 'g)" where
  "apply_blur randrange gaussian_blur img max_kernel_size g =
     (if max_kernel_size < 1 then Inr (img, g)
      else
        (case py_randrange randrange g 1 (max_kernel_size + 1) 2 of
           Inl e \<Rightarrow> Inl e
         | Inr (kernel_val, g') \<Rightarrow> Inr (gaussian_blur img kernel_val, g')))"

subsection \<open>The main loop\<close>

text \<open>Lines 173 to 181: the range the outer radius is drawn from.\<close>

definition max_possible_r_outer :: "int \<Rightarrow> int \<Rightarrow> int" where
  "max_possible_r_outer img_w img_h = min img_w img_h div 2"

definition min_r_outer :: "int \<Rightarrow> int \<Rightarrow> int" where
  "min_r_outer img_w img_h =
     (let m = max 1 (py_int (1/10 * of_int (min img_w img_h)))
      in if max_possible_r_outer img_w img_h < m then max_possible_r_outer img_w img_h else m)"

text \<open>Lines 201 to 203.\<close>

definition actual_radii :: "int \<Rightarrow> int list" where
  "actual_radii r_outer =
     filter (\<lambda>r. 0 < r) (map (\<lambda>factor. py_int (factor * of_int r_outer)) RADII_FACTORS)"

text \<open>
  Lines 201 to 238 of one pass of the loop, for the values \<open>r_outer\<close>, \<open>cx\<close> and
  \<open>cy\<close> drawn in that pass: \<open>None\<close> is \<^verbatim>\<open>continue\<close>, \<open>Some\<close> the record that
  reaches the write. The colours and the two augmentations change the image only.
\<close>

definition ring_sample :: "int \<Rightarrow> int \<Rightarrow> int \<Rightarrow> py_error + yolo_data option" where
  "ring_sample r_outer cx cy =
     (if length (actual_radii r_outer) < NUM_CIRCLES then Inr None
      else
        (case to_yolo_format (calculate_visible_bbox cx cy r_outer IMG_WIDTH IMG_HEIGHT)
                IMG_WIDTH IMG_HEIGHT of
           Inl e \<Rightarrow> Inl e
         | Inr (c, x, y, w, h) \<Rightarrow>
             if w \<le> 0 \<or> h \<le> 0 then Inr None else Inr (Some (c, x, y, w, h))))"

text \<open>Line 245: the text written to the label file.\<close>

definition ring_label_file :: "yolo_data \<Rightarrow> string" where
  "ring_label_file d =
     (case d of (c, x, y, w, h) \<Rightarrow>
        str_int c @ '' '' @ format_6f x @ '' '' @ format_6f y @ '' '' @ format_6f w
        @ '' '' @ format_6f h @ [CHR 0x0A])"

text \<open>
  Lines 164 to 247: the loop over the draws of the successive passes. \<open>written\<close> holds
  the records written so far, so \<^verbatim>\<open>generated_count\<close> is its length.
\<close>

fun ring_main_loop :: "(int \<times> int \<times> int) list \<Rightarrow> yolo_data list \<Rightarrow> py_error + yolo_data list" where
  "ring_main_loop [] written = Inr written"
| "ring_main_loop ((r_outer, cx, cy) # draws) written =
     (if NUM_IMAGES \<le> length written then Inr written
      else
        (case ring_sample r_outer cx cy of
           Inl e \<Rightarrow> Inl e
         | Inr None \<Rightarrow> ring_main_loop draws written
         | Inr (Some d) \<Rightarrow> ring_main_loop draws (written @ [d])))"

definition ring_main :: "(int \<times> int \<times> int) list \<Rightarrow> py_error + yolo_data list" where
  "ring_main draws = ring_main_loop (take (NUM_IMAGES * 2) draws) []"

section \<open>Partitioner: \<^verbatim>\<open>split_dataset.py\<close>\<close>

subsection \<open>The path functions of \<^verbatim>\<open>os.path\<close> on POSIX\<close>

text \<open>\<^verbatim>\<open>basename(p)\<close> is what follows the last separator.\<close>

definition basename :: "string \<Rightarrow> string" where
  "basename p = rev (takeWhile (\<lambda>c. c \<noteq> CHR ''/'') (rev p))"

text \<open>\<^verbatim>\<open>p.rfind(c)\<close>: the index of the last occurrence, -1 when there is none.\<close>

definition rfind :: "string \<Rightarrow> char \<Rightarrow> int" where
  "rfind p c =
     (if c \<in> set p then int (length p) - 1 - int (length (takeWhile (\<lambda>x. x \<noteq> c) (rev p)))
      else - 1)"

text \<open>
  \<^verbatim>\<open>splitext(p)\<close> splits at the last dot of the last component, unless that
  component has nothing but dots before it.
\<close>

definition splitext :: "string \<Rightarrow> string \<times> string" where
  "splitext p =
     (let sepIndex = rfind p (CHR ''/'');
          dotIndex = rfind p (CHR ''.'')
      in if sepIndex < dotIndex
            \<and> list_ex (\<lambda>c. c \<noteq> CHR ''.'')
                 (take (nat (dotIndex - (sepIndex + 1))) (drop (nat (sepIndex + 1)) p))
         then (take (nat dotIndex) p, drop (nat dotIndex) p)
         else (p, []))"

text \<open>\<^verbatim>\<open>join(a, b)\<close>.\<close>

definition path_join :: "string \<Rightarrow> string \<Rightarrow> string" where
  "path_join a b =
     (if take 1 b = ''/'' then b
      else if a = [] \<or> last a = CHR ''/'' then a @ b
      else a @ ''/'' @ b)"

subsection \<open>Constants and paths\<close>

definition SOURCE_IMAGES_DIR :: string where
  "SOURCE_IMAGES_DIR = path_join (path_join ''hotspot_dataset'' ''images'') ''train''"

definition SOURCE_LABELS_DIR :: string where
  "SOURCE_LABELS_DIR = path_join (path_join ''hotspot_dataset'' ''labels'') ''train''"

definition OUTPUT_DATA_DIR :: string where
  "OUTPUT_DATA_DIR = ''yolo_hotspot_data''"

definition TRAIN_RATIO :: real where "TRAIN_RATIO = 8 / 10"
definition RANDOM_SEED :: int where "RANDOM_SEED = 42"

definition train_images_path :: string where
  "train_images_path = path_join (path_join OUTPUT_DATA_DIR ''images'') ''train''"

definition train_labels_path :: string where
  "train_labels_path = path_join (path_join OUTPUT_DATA_DIR ''labels'') ''train''"

definition val_images_path :: string where
  "val_images_path = path_join (path_join OUTPUT_DATA_DIR ''images'') ''val''"

definition val_labels_path :: string where
  "val_labels_path = path_join (path_join OUTPUT_DATA_DIR ''labels'') ''val''"

subsection \<open>\<^verbatim>\<open>get_corresponding_label_file\<close>\<close>

definition get_corresponding_label_file :: "string \<Rightarrow> string \<Rightarrow> string" where
  "get_corresponding_label_file image_path labels_dir =
     (let base_filename = fst (splitext (basename image_path))
      in path_join labels_dir (base_filename @ ''.txt''))"

subsection \<open>\<^verbatim>\<open>copy_files\<close>\<close>

text \<open>
  The file system is a state \<open>'w\<close> with two operations, both parameters:
  \<open>path_exists w p\<close> is \<^verbatim>\<open>os.path.exists(p)\<close>, and \<open>shutil_copy w src dst\<close> is
  \<^verbatim>\<open>shutil.copy(src, dst)\<close>, which gives the new state and whether the call
  returned (\<open>True\<close>) or raised (\<open>False\<close>).

  What one pass of the loop does is recorded per image as a list of events: the
  warning of line 87, each copy call that returned, and the message of line 96.
\<close>

datatype event =
    LabelNotFound string
  | ImageCopied string string
  | LabelCopied string string
  | CopyError string string

type_synonym 'w copy_state = "nat \<times> (string \<times> event list) list \<times> 'w"

text \<open>Lines 84 to 96: the body of the loop, on the state \<open>(copied_count, trace, w)\<close>.\<close>

definition copy_step ::
  "('w \<Rightarrow> string \<Rightarrow> bool) \<Rightarrow> ('w \<Rightarrow> string \<Rightarrow> string \<Rightarrow> bool \<times> 'w) \<Rightarrow> string \<Rightarrow> string \<Rightarrow> string
     \<Rightarrow> string \<Rightarrow> 'w copy_state \<Rightarrow> 'w copy_state" where
  "copy_step path_exists shutil_copy dest_img_dir dest_lbl_dir source_lbl_dir img_path s =
     (case s of (copied_count, trace, w) \<Rightarrow>
        let lbl_path = get_corresponding_label_file img_path source_lbl_dir
        in if path_exists w lbl_path then
             (case shutil_copy w img_path dest_img_dir of (ok1, w1) \<Rightarrow>
                if ok1 then
                  (case shutil_copy w1 lbl_path dest_lbl_dir of (ok2, w2) \<Rightarrow>
                     if ok2 then
                       (copied_count + 1,
                        trace @ [(img_path, [ImageCopied img_path dest_img_dir,
                                             LabelCopied lbl_path dest_lbl_dir])],
                        w2)
                     else
                       (copied_count,
                        trace @ [(img_path, [ImageCopied img_path dest_img_dir,
                                             CopyError img_path lbl_path])],
                        w2))
                else (copied_count, trace @ [(img_path, [CopyError img_path lbl_path])], w1))
           else (copied_count, trace @ [(img_path, [LabelNotFound img_path])], w))"

text \<open>Lines 83 to 96: the loop, from any state.\<close>

definition copy_files_from ::
  "('w \<Rightarrow> string \<Rightarrow> bool) \<Rightarrow> ('w \<Rightarrow> string \<Rightarrow> string \<Rightarrow> bool \<times> 'w) \<Rightarrow> string list \<Rightarrow> string \<Rightarrow> string
     \<Rightarrow> string \<Rightarrow> 'w copy_state \<Rightarrow> 'w copy_state" where
  "copy_files_from path_exists shutil_copy file_list dest_img_dir dest_lbl_dir source_lbl_dir s =
     fold (copy_step path_exists shutil_copy dest_img_dir dest_lbl_dir source_lbl_dir) file_list s"

text \<open>Lines 82 to 98: the function, with \<^verbatim>\<open>copied_count = 0\<close> at the start.\<close>

definition copy_files ::
  "('w \<Rightarrow> string \<Rightarrow> bool) \<Rightarrow> ('w \<Rightarrow> string \<Rightarrow> string \<Rightarrow> bool \<times> 'w) \<Rightarrow> string list \<Rightarrow> string \<Rightarrow> string
     \<Rightarrow> string \<Rightarrow> 'w \<Rightarrow> 'w copy_state" where
  "copy_files path_exists shutil_copy file_list dest_img_dir dest_lbl_dir source_lbl_dir w =
     copy_files_from path_exists shutil_copy file_list dest_img_dir dest_lbl_dir source_lbl_dir
       (0, [], w)"

text \<open>An image whose two copy calls both returned.\<close>

definition pair_copied :: "string \<Rightarrow> string \<Rightarrow> string \<Rightarrow> string \<times> event list \<Rightarrow> bool" where
  "pair_copied dest_img_dir dest_lbl_dir source_lbl_dir entry =
     (snd entry = [ImageCopied (fst entry) dest_img_dir,
                   LabelCopied (get_corresponding_label_file (fst entry) source_lbl_dir)
                     dest_lbl_dir])"

subsection \<open>\<^verbatim>\<open>main\<close>, from the file list on\<close>

text \<open>Line 61.\<close>

definition split_index :: "nat \<Rightarrow> nat" where
  "split_index n = nat (py_int (of_nat n * TRAIN_RATIO))"

text \<open>
  Lines 52 to 106. \<open>image_files\<close> is what \<^verbatim>\<open>glob.glob\<close> returned, \<open>g0\<close> the state
  of the random generator when \<^verbatim>\<open>main\<close> starts and \<open>w0\<close> the file system then.
  \<^verbatim>\<open>random.seed(n)\<close> is the parameter \<open>seed\<close> (the new generator state, whatever the
  old one was) and \<^verbatim>\<open>random.shuffle\<close> the parameter \<open>shuffle\<close>. \<open>None\<close> is the
  early return of line 54; otherwise the result holds the two file lists, the two
  counts that are printed, and the final file system.
\<close>

definition split_main ::
  "(int \<Rightarrow> 'g) \<Rightarrow> ('g \<Rightarrow> string list \<Rightarrow> string list \<times> 'g) \<Rightarrow> ('w \<Rightarrow> string \<Rightarrow> bool)
     \<Rightarrow> ('w \<Rightarrow> string \<Rightarrow> string \<Rightarrow> bool \<times> 'w) \<Rightarrow> 'g \<Rightarrow> 'w \<Rightarrow> string list
     \<Rightarrow> (string list \<times> string list \<times> nat \<times> nat \<times> 'w) option" where
  "split_main seed shuffle path_exists shutil_copy g0 w0 image_files =
     (if image_files = [] then None
      else
        (case shuffle (seed RANDOM_SEED) image_files of (shuffled, g1) \<Rightarrow>
           let train_files = take (split_index (length shuffled)) shuffled;
               val_files = drop (split_index (length shuffled)) shuffled
           in (case copy_files path_exists shutil_copy train_files train_images_path
                      train_labels_path SOURCE_LABELS_DIR w0 of
                 (train_copied, trace1, w1) \<Rightarrow>
               (case copy_files path_exists shutil_copy val_files val_images_path
                       val_labels_path SOURCE_LABELS_DIR w1 of
                  (val_copied, trace2, w2) \<Rightarrow>
                    Some (train_files, val_files, train_copied, val_copied, w2)))))"

section \<open>Denormalisation\<close>

text \<open>
  Not a function of the repository: the inverse map that the round-trip property of
  the specification names, \<open>x_min = (x_center_norm - width_norm/2) * W\<close> and its three
  analogues, written down from those words. \<open>within_one_pixel\<close> compares two boxes
  edge by edge.
\<close>

definition denormalize :: "real \<times> real \<times> real \<times> real \<Rightarrow> int \<Rightarrow> int \<Rightarrow> fbox" where
  "denormalize fields img_w img_h =
     (case fields of (x_center_norm, y_center_norm, width_norm, height_norm) \<Rightarrow>
        ((x_center_norm - width_norm / 2) * of_int img_w,
         (y_center_norm - height_norm / 2) * of_int img_h,
         (x_center_norm + width_norm / 2) * of_int img_w,
         (y_center_norm + height_norm / 2) * of_int img_h))"

definition within_one_pixel :: "fbox \<Rightarrow> fbox \<Rightarrow> bool" where
  "within_one_pixel a b =
     (case a of (a1, a2, a3, a4) \<Rightarrow> case b of (b1, b2, b3, b4) \<Rightarrow>
        \<bar>a1 - b1\<bar> < 1 \<and> \<bar>a2 - b2\<bar> < 1 \<and> \<bar>a3 - b3\<bar> < 1 \<and> \<bar>a4 - b4\<bar> < 1)"

definition box_of_int :: "bbox \<Rightarrow> fbox" where
  "box_of_int b = (case b of (x0, y0, x1, y1) \<Rightarrow> (of_int x0, of_int y0, of_int x1, of_int y1))"

section \<open>Predicates the properties use\<close>

text \<open>A record whose normalised width and height are both positive.\<close>

definition positive_size :: "yolo_data \<Rightarrow> bool" where
  "positive_size d = (case d of (c, x, y, w, h) \<Rightarrow> 0 < w \<and> 0 < h)"

section \<open>Scenario B\<close>

text \<open>
  C1 (as the code computes it). For the rectangle with tight box (10,10)-(110,160) on
  a 640 by 640 canvas with padding fraction 0.07, the height of the box is 150 and
  the vertical padding 10.5, so the enlarged box is (3, -0.5, 117, 170.5); clamping
  raises the upper edge to 0, giving (3, 0, 117, 170.5); the normalised centre is
  (0.09375, 0.133203125) and the normalised size (0.178125, 0.26640625).
\<close>

theorem scenario_b_values:
  "enlarged_bbox (10, 10, 110, 160) (7/100) = (3, - (1/2), 117, 341/2)
   \<and> clamped_bbox (enlarged_bbox (10, 10, 110, 160) (7/100)) 640 640 = (3, 0, 117, 341/2)
   \<and> final_bbox (10, 10, 110, 160) 640 640 (7/100) = (3, 0, 117, 341/2)
   \<and> yolo_fields (10, 10, 110, 160) 640 640 (7/100)
       = Inr (0.09375, 0.133203125, 0.178125, 0.26640625)"
  by (simp add: enlarged_bbox_def clamped_bbox_def final_bbox_def repair_span_def
      yolo_fields_def normalize_bbox_def)

text \<open>
  The values of Scenario B as the specification gives them do not come out of the code:
  the enlarged box is not (3, 6.5, 117, 166.5), clamping changes it, and the normalised
  record is not centre (0.09375, 0.134765625) with size (0.178125, 0.25).
\<close>

theorem scenario_b_spec_values_refuted:
  "\<not> (enlarged_bbox (10, 10, 110, 160) (7/100) = (3, 13/2, 117, 333/2)
      \<and> clamped_bbox (enlarged_bbox (10, 10, 110, 160) (7/100)) 640 640
          = enlarged_bbox (10, 10, 110, 160) (7/100)
      \<and> yolo_fields (10, 10, 110, 160) 640 640 (7/100)
          = Inr (0.09375, 0.134765625, 0.178125, 0.25))"
  by (simp add: enlarged_bbox_def)

section \<open>The ring box needs no clamping\<close>

text \<open>
  C2. For every outer radius \<open>r\<close> with \<open>1 \<le> r \<le> min W H div 2\<close> and every centre
  with \<open>cx\<close> in \<open>[r, W - r]\<close> and \<open>cy\<close> in \<open>[r, H - r]\<close>, the box
  \<open>(cx - r, cy - r, cx + r, cy + r)\<close> lies within \<open>[0, W] \<times> [0, H]\<close> and
  \<open>calculate_visible_bbox\<close> returns exactly that box.
\<close>

theorem visible_bbox_unclamped:
  assumes "1 \<le> r" "r \<le> min W H div 2" "r \<le> cx" "cx \<le> W - r" "r \<le> cy" "cy \<le> H - r"
  shows "calculate_visible_bbox cx cy r W H = (cx - r, cy - r, cx + r, cy + r)
         \<and> 0 \<le> cx - r \<and> cx + r \<le> W \<and> 0 \<le> cy - r \<and> cy + r \<le> H"
  using assms by (simp add: calculate_visible_bbox_def)

theorem visible_bbox_unclamped_witness:
  "calculate_visible_bbox 320 320 200 640 640 = (120, 120, 520, 520)
   \<and> max_possible_r_outer 640 640 = 320 \<and> min_r_outer 640 640 = 64"
  using visible_bbox_unclamped [of 200 640 640 320 320]
  by (simp add: max_possible_r_outer_def min_r_outer_def py_int_def)

section \<open>Degeneracy repair\<close>

lemma repair_span_chain:
  assumes "1 \<le> img" "0 \<le> lo" "repair_span lo hi img = (a, b)"
  shows "0 \<le> a \<and> a < b \<and> b \<le> (if hi \<le> lo then of_int img else hi)"
  using assms by (auto simp: repair_span_def Let_def split: if_splits)

lemma repair_span_unit:
  assumes "1 \<le> img" "0 \<le> lo" "hi \<le> lo" "of_int img \<le> lo \<or> lo = of_int n"
    and "repair_span lo hi img = (a, b)"
  shows "b - a = 1"
proof (cases "of_int img \<le> lo")
  case True
  with assms show ?thesis by (auto simp: repair_span_def Let_def split: if_splits)
next
  case False
  with assms have lo: "lo = of_int n" by simp
  with False have "n < img" by simp
  then have "n + 1 \<le> img" by simp
  then have "(of_int n :: real) + 1 \<le> of_int img"
    by (metis of_int_1 of_int_add of_int_le_iff)
  with assms lo False show ?thesis by (auto simp: repair_span_def Let_def split: if_splits)
qed

lemma clamped_lower_nonneg:
  "clamped_bbox e img_w img_h = (x_min, y_min, x_max, y_max) \<Longrightarrow> 0 \<le> x_min \<and> 0 \<le> y_min"
  by (auto simp: clamped_bbox_def split: prod.splits)

text \<open>
  A well-formed integer box with non-negative padding is degenerate after clamping only
  when it lies beyond the far edge of the canvas or when its clamped lower edge is an
  integer.
\<close>

lemma degenerate_well_formed:
  fixes t0 t1 :: int and p :: real
  assumes "t0 \<le> t1" "0 \<le> p"
    and "min (of_int img) (of_int t1 + of_int (t1 - t0) * p) \<le> max 0 (of_int t0 - of_int (t1 - t0) * p)"
  shows "\<exists>n. of_int img \<le> max 0 (of_int t0 - of_int (t1 - t0) * p)
         \<or> max 0 (of_int t0 - of_int (t1 - t0) * p) = of_int n"
proof -
  let ?w = "of_int (t1 - t0) :: real"
  have w0: "0 \<le> ?w" using assms(1) by simp
  then have wp: "0 \<le> ?w * p" using assms(2) by simp
  show ?thesis
  proof (cases "of_int t0 - ?w * p \<le> 0")
    case True
    then have "max 0 (of_int t0 - ?w * p) = of_int 0" by simp
    then show ?thesis by blast
  next
    case False
    show ?thesis
    proof (cases "of_int img \<le> of_int t0 - ?w * p")
      case True
      then have "of_int img \<le> max 0 (of_int t0 - ?w * p)" by (simp add: le_max_iff_disj)
      then show ?thesis by blast
    next
      case F2: False
      with False assms(3) have "of_int t1 + ?w * p \<le> of_int t0 - ?w * p"
        by (simp add: min_def max_def split: if_splits)
      with wp have "real_of_int t1 \<le> of_int t0" by linarith
      with assms(1) have "t1 = t0" by simp
      with False have "max 0 (of_int t0 - ?w * p) = of_int t0" by (simp add: max_def)
      then show ?thesis by blast
    qed
  qed
qed

text \<open>
  C3. On a canvas with \<open>img_w \<ge> 1\<close> and \<open>img_h \<ge> 1\<close>, for every tight box and every
  padding: if after padding and clamping \<open>x_max \<le> x_min\<close>, the repaired box has
  \<open>0 \<le> final_x_min < final_x_max \<le> img_w\<close>, and likewise for y. When the tight box is
  well formed (\<open>x_min \<le> x_max\<close>, integer corners) and the padding is not negative, the
  repaired span is exactly one pixel.
\<close>

theorem degeneracy_repair:
  assumes "1 \<le> img_w" "1 \<le> img_h"
    and cl: "clamped_bbox (enlarged_bbox (tx0, ty0, tx1, ty1) p) img_w img_h = (x_min, y_min, x_max, y_max)"
    and fi: "final_bbox (tx0, ty0, tx1, ty1) img_w img_h p = (fx0, fy0, fx1, fy1)"
  shows "(x_max \<le> x_min \<longrightarrow> 0 \<le> fx0 \<and> fx0 < fx1 \<and> fx1 \<le> of_int img_w)
       \<and> (y_max \<le> y_min \<longrightarrow> 0 \<le> fy0 \<and> fy0 < fy1 \<and> fy1 \<le> of_int img_h)
       \<and> (x_max \<le> x_min \<and> tx0 \<le> tx1 \<and> 0 \<le> p \<longrightarrow> fx1 - fx0 = 1)
       \<and> (y_max \<le> y_min \<and> ty0 \<le> ty1 \<and> 0 \<le> p \<longrightarrow> fy1 - fy0 = 1)"
proof -
  from cl have nn: "0 \<le> x_min" "0 \<le> y_min" using clamped_lower_nonneg by blast+
  from cl fi have rx: "repair_span x_min x_max img_w = (fx0, fx1)"
    and ry: "repair_span y_min y_max img_h = (fy0, fy1)"
    by (auto simp: final_bbox_def split: prod.splits)
  have x: "x_max \<le> x_min \<longrightarrow> 0 \<le> fx0 \<and> fx0 < fx1 \<and> fx1 \<le> of_int img_w"
    using repair_span_chain [OF assms(1) nn(1) rx] by (simp split: if_splits)
  have y: "y_max \<le> y_min \<longrightarrow> 0 \<le> fy0 \<and> fy0 < fy1 \<and> fy1 \<le> of_int img_h"
    using repair_span_chain [OF assms(2) nn(2) ry] by (simp split: if_splits)
  from cl have xs: "x_min = max 0 (of_int tx0 - of_int (tx1 - tx0) * p)"
      "x_max = min (of_int img_w) (of_int tx1 + of_int (tx1 - tx0) * p)"
    and ys: "y_min = max 0 (of_int ty0 - of_int (ty1 - ty0) * p)"
      "y_max = min (of_int img_h) (of_int ty1 + of_int (ty1 - ty0) * p)"
    by (auto simp: clamped_bbox_def enlarged_bbox_def Let_def)
  have ux: "fx1 - fx0 = 1" if "x_max \<le> x_min" "tx0 \<le> tx1" "0 \<le> p"
  proof -
    from that xs obtain n where "of_int img_w \<le> x_min \<or> x_min = of_int n"
      using degenerate_well_formed [of tx0 tx1 p img_w] by auto
    then show ?thesis
      using repair_span_unit [OF assms(1) nn(1) that(1) _ rx] by blast
  qed
  have uy: "fy1 - fy0 = 1" if "y_max \<le> y_min" "ty0 \<le> ty1" "0 \<le> p"
  proof -
    from that ys obtain n where "of_int img_h \<le> y_min \<or> y_min = of_int n"
      using degenerate_well_formed [of ty0 ty1 p img_h] by auto
    then show ?thesis
      using repair_span_unit [OF assms(2) nn(2) that(1) _ ry] by blast
  qed
  from x y ux uy show ?thesis by blast
qed

text \<open>
  The repair at work: a box beyond the right edge in x, and of height 0 in y, on the
  640 by 640 canvas.
\<close>

theorem degeneracy_repair_witness:
  "clamped_bbox (enlarged_bbox (700, 5, 800, 5) (7/100)) 640 640 = (693, 5, 640, 5)
   \<and> final_bbox (700, 5, 800, 5) 640 640 (7/100) = (639, 5, 640, 6)
   \<and> (0::real) \<le> 639 \<and> (639::real) < 640 \<and> (640::real) - 639 = 1 \<and> (6::real) - 5 = 1"
proof -
  have cl: "clamped_bbox (enlarged_bbox (700, 5, 800, 5) (7/100)) 640 640 = (693, 5, 640, 5)"
    by (simp add: clamped_bbox_def enlarged_bbox_def)
  have fi: "final_bbox (700, 5, 800, 5) 640 640 (7/100) = (639, 5, 640, 6)"
    by (simp add: final_bbox_def repair_span_def clamped_bbox_def enlarged_bbox_def)
  have "(1::int) \<le> 640" by simp
  from degeneracy_repair [OF this this cl fi] cl fi show ?thesis by simp
qed

section \<open>Blur with a kernel bound below 1\<close>

text \<open>
  C10. For every image and every \<open>max_kernel_size < 1\<close>, \<open>apply_blur\<close> returns the
  image unchanged and leaves the generator state as it was: no random draw is made
  and the blur is not applied.
\<close>

theorem apply_blur_skipped:
  "max_kernel_size < 1 \<Longrightarrow>
     apply_blur randrange gaussian_blur img max_kernel_size g = Inr (img, g)"
  by (simp add: apply_blur_def)

theorem apply_blur_skipped_witness:
  "apply_blur (\<lambda>g start stop step. (start, Suc g)) (\<lambda>img k. rev img) [1, 2, 3 :: nat] 0 (7 :: nat)
     = Inr ([1, 2, 3], 7)
   \<and> apply_blur (\<lambda>g start stop step. (start, Suc g)) (\<lambda>img k. rev img) [1, 2, 3 :: nat] 1 (7 :: nat)
     = Inr ([3, 2, 1], 8)"
  using apply_blur_skipped [of 0 "\<lambda>g start stop step. (start, Suc g)" "\<lambda>img k. rev img"
      "[1, 2, 3 :: nat]" "7 :: nat"]
  by (simp add: apply_blur_def py_randrange_def)

section \<open>Round trip\<close>

lemma denormalize_normalize:
  assumes "img_w \<noteq> 0" "img_h \<noteq> 0"
  shows "\<exists>fields. normalize_bbox b img_w img_h = Inr fields \<and> denormalize fields img_w img_h = b"
  using assms by (cases b) (simp add: normalize_bbox_def denormalize_def Let_def field_simps)

lemma denormalize_to_yolo_format:
  assumes "img_w \<noteq> 0" "img_h \<noteq> 0"
  shows "\<exists>fields. to_yolo_format b img_w img_h = Inr (CLASS_ID, fields)
           \<and> denormalize fields img_w img_h = box_of_int b"
  using assms
  by (cases b) (simp add: to_yolo_format_def denormalize_def box_of_int_def Let_def field_simps)

lemma within_one_pixel_refl: "within_one_pixel b b"
  by (cases b) (simp add: within_one_pixel_def)

text \<open>
  C5. For every canvas size \<open>img_w > 0\<close>, \<open>img_h > 0\<close>: denormalising the fields that
  \<open>calculate_yolo_annotation\<close> computes gives back the padded, clamped and repaired
  box, and denormalising the fields of \<open>to_yolo_format\<close> gives back its input box. In
  exact arithmetic the two boxes are equal, so they agree within one pixel.
\<close>

theorem round_trip:
  assumes "0 < img_w" "0 < img_h"
  shows "(\<exists>fields. yolo_fields tight_bbox img_w img_h padding_percentage = Inr fields
            \<and> denormalize fields img_w img_h = final_bbox tight_bbox img_w img_h padding_percentage
            \<and> within_one_pixel (denormalize fields img_w img_h)
                 (final_bbox tight_bbox img_w img_h padding_percentage))
       \<and> (\<exists>fields. to_yolo_format bbox img_w img_h = Inr (CLASS_ID, fields)
            \<and> denormalize fields img_w img_h = box_of_int bbox
            \<and> within_one_pixel (denormalize fields img_w img_h) (box_of_int bbox))"
proof -
  from assms have nz: "img_w \<noteq> 0" "img_h \<noteq> 0" by simp_all
  obtain f1 where f1: "yolo_fields tight_bbox img_w img_h padding_percentage = Inr f1"
      "denormalize f1 img_w img_h = final_bbox tight_bbox img_w img_h padding_percentage"
    using denormalize_normalize [OF nz] unfolding yolo_fields_def by blast
  obtain f2 where f2: "to_yolo_format bbox img_w img_h = Inr (CLASS_ID, f2)"
      "denormalize f2 img_w img_h = box_of_int bbox"
    using denormalize_to_yolo_format [OF nz] by blast
  from f1 f2 show ?thesis by (simp add: within_one_pixel_refl)
qed

theorem round_trip_witness:
  "yolo_fields (10, 10, 110, 160) 640 640 (7/100)
     = Inr (0.09375, 0.133203125, 0.178125, 0.26640625)
   \<and> denormalize (0.09375, 0.133203125, 0.178125, 0.26640625) 640 640 = (3, 0, 117, 341/2)
   \<and> to_yolo_format (120, 120, 520, 520) 640 640 = Inr (0, 1/2, 1/2, 5/8, 5/8)
   \<and> denormalize (1/2, 1/2, 5/8, 5/8) 640 640 = (120, 120, 520, 520)"
  using round_trip [of 640 640 "(10, 10, 110, 160)" "7/100" "(120, 120, 520, 520)"]
  by (simp add: yolo_fields_def normalize_bbox_def final_bbox_def repair_span_def
      clamped_bbox_def enlarged_bbox_def to_yolo_format_def CLASS_ID_def denormalize_def)

section \<open>Written records have positive size\<close>

lemma repair_span_positive:
  assumes "1 \<le> img" "0 \<le> lo" "repair_span lo hi img = (a, b)"
  shows "a < b"
  using assms by (auto simp: repair_span_def Let_def split: if_splits)

lemma final_bbox_positive:
  assumes "1 \<le> img_w" "1 \<le> img_h"
    and fi: "final_bbox tight_bbox img_w img_h p = (fx0, fy0, fx1, fy1)"
  shows "fx0 < fx1 \<and> fy0 < fy1"
proof -
  obtain x_min y_min x_max y_max where
    cl: "clamped_bbox (enlarged_bbox tight_bbox p) img_w img_h = (x_min, y_min, x_max, y_max)"
    by (metis prod_cases4)
  then have nn: "0 \<le> x_min" "0 \<le> y_min" using clamped_lower_nonneg by blast+
  from cl fi have "repair_span x_min x_max img_w = (fx0, fx1)"
    and "repair_span y_min y_max img_h = (fy0, fy1)"
    by (auto simp: final_bbox_def split: prod.splits)
  with assms(1,2) nn show ?thesis using repair_span_positive by blast
qed

lemma yolo_fields_positive:
  assumes "1 \<le> img_w" "1 \<le> img_h"
  shows "\<exists>x y w h. yolo_fields tight_bbox img_w img_h p = Inr (x, y, w, h) \<and> 0 < w \<and> 0 < h"
proof -
  obtain fx0 fy0 fx1 fy1 where fi: "final_bbox tight_bbox img_w img_h p = (fx0, fy0, fx1, fy1)"
    by (metis prod_cases4)
  from final_bbox_positive [OF assms fi] assms fi show ?thesis
    by (simp add: yolo_fields_def normalize_bbox_def Let_def)
qed

lemma to_yolo_format_returns:
  "img_w \<noteq> 0 \<Longrightarrow> img_h \<noteq> 0 \<Longrightarrow> \<exists>d. to_yolo_format b img_w img_h = Inr d"
  by (cases b) (simp add: to_yolo_format_def Let_def)

lemma ring_sample_cases:
  "ring_sample r_outer cx cy = Inr None
   \<or> (\<exists>c x y w h. ring_sample r_outer cx cy = Inr (Some (c, x, y, w, h)) \<and> 0 < w \<and> 0 < h)"
proof -
  have "IMG_WIDTH \<noteq> 0" "IMG_HEIGHT \<noteq> 0" by (simp_all add: IMG_WIDTH_def IMG_HEIGHT_def)
  then obtain c x y w h where
    "to_yolo_format (calculate_visible_bbox cx cy r_outer IMG_WIDTH IMG_HEIGHT) IMG_WIDTH IMG_HEIGHT
       = Inr (c, x, y, w, h)"
    using to_yolo_format_returns by (metis prod_cases5)
  then show ?thesis
    by (cases "w \<le> 0 \<or> h \<le> 0") (auto simp: ring_sample_def)
qed

lemma ring_main_loop_positive:
  assumes "\<forall>d \<in> set written. positive_size d"
  shows "\<exists>out. ring_main_loop draws written = Inr out \<and> (\<forall>d \<in> set out. positive_size d)"
  using assms
proof (induction draws arbitrary: written)
  case Nil
  then show ?case by simp
next
  case (Cons a draws)
  obtain r_outer cx cy where a: "a = (r_outer, cx, cy)" by (cases a)
  show ?case
  proof (cases "NUM_IMAGES \<le> length written")
    case True
    with Cons.prems a show ?thesis by simp
  next
    case False
    from ring_sample_cases [of r_outer cx cy] show ?thesis
    proof
      assume "ring_sample r_outer cx cy = Inr None"
      with False a Cons.IH [OF Cons.prems] show ?thesis by simp
    next
      assume "\<exists>c x y w h. ring_sample r_outer cx cy = Inr (Some (c, x, y, w, h)) \<and> 0 < w \<and> 0 < h"
      then obtain c x y w h where s: "ring_sample r_outer cx cy = Inr (Some (c, x, y, w, h))"
        and pos: "0 < w" "0 < h" by blast
      from pos Cons.prems have "\<forall>d \<in> set (written @ [(c, x, y, w, h)]). positive_size d"
        by (simp add: positive_size_def)
      from Cons.IH [OF this] s False a show ?thesis by simp
    qed
  qed
qed

text \<open>
  C4. In the ring pipeline the main loop runs to its end, and every record it writes
  has positive normalised width and height (the check of line 237 drops any other).
  In the polygon pipeline the annotation of every tight box on the 640 by 640 canvas
  with padding 0.07 has positive normalised width and height (the repair step leaves no
  empty span).
\<close>

theorem written_records_positive:
  "(\<exists>written. ring_main draws = Inr written \<and> (\<forall>d \<in> set written. positive_size d))
   \<and> (\<exists>fields. yolo_fields tight_bbox IMAGE_WIDTH IMAGE_HEIGHT BBOX_PADDING_PERCENTAGE = Inr fields
         \<and> positive_size (class_id, fields))"
proof -
  have "\<exists>written. ring_main draws = Inr written \<and> (\<forall>d \<in> set written. positive_size d)"
    unfolding ring_main_def by (rule ring_main_loop_positive) simp
  moreover have "\<exists>fields. yolo_fields tight_bbox IMAGE_WIDTH IMAGE_HEIGHT BBOX_PADDING_PERCENTAGE = Inr fields
         \<and> positive_size (class_id, fields)"
    using yolo_fields_positive [of IMAGE_WIDTH IMAGE_HEIGHT tight_bbox BBOX_PADDING_PERCENTAGE]
    by (auto simp: positive_size_def IMAGE_WIDTH_def IMAGE_HEIGHT_def)
  ultimately show ?thesis by blast
qed

text \<open>
  Both parts at work: a ring sample that is written, one that is skipped because its
  radii vanish, and the rectangle of Scenario B.
\<close>

theorem written_records_positive_witness:
  "ring_main [(200, 320, 320), (0, 0, 0)] = Inr [(0, 1/2, 1/2, 5/8, 5/8)]
   \<and> positive_size (0, 1/2, 1/2, 5/8, 5/8)
   \<and> yolo_fields (10, 10, 110, 160) IMAGE_WIDTH IMAGE_HEIGHT BBOX_PADDING_PERCENTAGE
       = Inr (0.09375, 0.133203125, 0.178125, 0.26640625)
   \<and> positive_size (0, 0.09375, 0.133203125, 0.178125, 0.26640625)"
  using written_records_positive [of "[(200, 320, 320), (0, 0, 0)]" "(10, 10, 110, 160)" 0]
  by (simp add: ring_main_def ring_sample_def actual_radii_def RADII_FACTORS_def py_int_def
      NUM_IMAGES_def NUM_CIRCLES_def to_yolo_format_def calculate_visible_bbox_def
      IMG_WIDTH_def IMG_HEIGHT_def CLASS_ID_def positive_size_def
      yolo_fields_def normalize_bbox_def final_bbox_def repair_span_def
      clamped_bbox_def enlarged_bbox_def IMAGE_WIDTH_def IMAGE_HEIGHT_def BBOX_PADDING_PERCENTAGE_def)

section \<open>The text of a label file\<close>

lemmas fmt_simps = format_6f_def fixed_6_def round_half_even_def Let_def zero_pad_def
  str_nat.simps digit_char_def str_int_def

lemma str_nat_last: "str_nat n \<noteq> [] \<and> last (str_nat n) = digit_char (n mod 10)"
  by (subst (1 2) str_nat.simps) simp

lemma digit_char_not_newline: "d < 10 \<Longrightarrow> digit_char d \<noteq> CHR 0x0A"
proof -
  assume "d < 10"
  then have "d \<in> {0,1,2,3,4,5,6,7,8,9}" by auto
  then show ?thesis by (auto simp: digit_char_def)
qed

lemma format_6f_last: "format_6f x \<noteq> [] \<and> last (format_6f x) \<noteq> CHR 0x0A"
  using str_nat_last digit_char_not_newline
  by (simp add: format_6f_def fixed_6_def zero_pad_def)

lemma format_annotation_tuple:
  "format_annotation c (x, y, w, h) =
     str_int c @ '' '' @ format_6f x @ '' '' @ format_6f y @ '' '' @ format_6f w @ '' ''
     @ format_6f h"
  by (simp add: format_annotation_def)

lemma ring_label_file_tuple:
  "ring_label_file (c, x, y, w, h) =
     str_int c @ '' '' @ format_6f x @ '' '' @ format_6f y @ '' '' @ format_6f w @ '' ''
     @ format_6f h @ [CHR 0x0A]"
  by (simp add: ring_label_file_def)

lemma format_annotation_last:
  "format_annotation class_id fields \<noteq> []
   \<and> last (format_annotation class_id fields) \<noteq> CHR 0x0A"
  using format_6f_last by (cases fields) (simp add: format_annotation_def)

lemma polygon_label_file_returns:
  "\<exists>fields. polygon_label_file tight_bbox class_id = Inr (format_annotation class_id fields)"
  by (auto simp: polygon_label_file_def calculate_yolo_annotation_def yolo_fields_def
      normalize_bbox_def IMAGE_WIDTH_def IMAGE_HEIGHT_def Let_def split: prod.splits)

lemma scenario_b_fields:
  "yolo_fields (10, 10, 110, 160) IMAGE_WIDTH IMAGE_HEIGHT BBOX_PADDING_PERCENTAGE
     = Inr (0.09375, 0.133203125, 0.178125, 0.26640625)"
  by (simp add: yolo_fields_def normalize_bbox_def final_bbox_def repair_span_def
      clamped_bbox_def enlarged_bbox_def IMAGE_WIDTH_def IMAGE_HEIGHT_def
      BBOX_PADDING_PERCENTAGE_def)

lemma scenario_b_label:
  "polygon_label_file (10, 10, 110, 160) 0 = Inr ''0 0.093750 0.133203 0.178125 0.266406''"
  unfolding polygon_label_file_def calculate_yolo_annotation_def scenario_b_fields
  by (simp add: format_annotation_tuple fmt_simps)

lemma scenario_a_label:
  "ring_label_file (0, 1/2, 1/2, 5/8, 5/8) = ''0 0.500000 0.500000 0.625000 0.625000'' @ [CHR 0x0A]"
  by (simp add: ring_label_file_tuple fmt_simps)

text \<open>
  C6, as the code has it. The ring pipeline ends the line of every label file with a
  newline. The polygon pipeline does not: the text it writes for any sample is not
  empty and its last character is not a newline. For the rectangle of Scenario B with
  class 0 the file holds \<^verbatim>\<open>0 0.093750 0.133203 0.178125 0.266406\<close> and nothing
  after it; for the ring of Scenario A the file holds
  \<^verbatim>\<open>0 0.500000 0.500000 0.625000 0.625000\<close> followed by a newline.
\<close>

theorem label_line_termination:
  "(\<exists>s. polygon_label_file tight_bbox class_id = Inr s \<and> s \<noteq> [] \<and> last s \<noteq> CHR 0x0A)
   \<and> last (ring_label_file d) = CHR 0x0A
   \<and> polygon_label_file (10, 10, 110, 160) 0 = Inr ''0 0.093750 0.133203 0.178125 0.266406''
   \<and> ring_label_file (0, 1/2, 1/2, 5/8, 5/8)
       = ''0 0.500000 0.500000 0.625000 0.625000'' @ [CHR 0x0A]"
proof -
  have "\<exists>s. polygon_label_file tight_bbox class_id = Inr s \<and> s \<noteq> [] \<and> last s \<noteq> CHR 0x0A"
    using polygon_label_file_returns [of tight_bbox class_id] format_annotation_last by auto
  moreover have "last (ring_label_file d) = CHR 0x0A"
    by (cases d) (simp add: ring_label_file_def)
  ultimately show ?thesis using scenario_b_label scenario_a_label by blast
qed

end
